theory Spec2Isabelle
  imports Complex_Main "HOL-Library.Word"
begin

section \<open>JavaScript strings\<close>

text \<open>
  A JavaScript string is a sequence of 16-bit code units. The source's string literals
  are ASCII; \<open>js\<close> turns such a literal into its code units.
\<close>

type_synonym jstring = "16 word list"

definition js :: "string \<Rightarrow> jstring" where
  "js s = map of_char s"

text \<open>
  \<open>String.prototype.trim\<close> removes the WhiteSpace and LineTerminator code points of
  ECMAScript from both ends: TAB, LF, VT, FF, CR, SP, NBSP, the space separators
  U+1680, U+2000 to U+200A, U+202F, U+205F, U+3000, the separators U+2028 and U+2029,
  and U+FEFF.
\<close>

definition isWhiteSpace :: "16 word \<Rightarrow> bool" where
  "isWhiteSpace c \<longleftrightarrow>
     c = 0x09 \<or> c = 0x0A \<or> c = 0x0B \<or> c = 0x0C \<or> c = 0x0D \<or> c = 0x20 \<or> c = 0xA0 \<or>
     c = 0x1680 \<or> (0x2000 \<le> c \<and> c \<le> 0x200A) \<or> c = 0x2028 \<or> c = 0x2029 \<or>
     c = 0x202F \<or> c = 0x205F \<or> c = 0x3000 \<or> c = 0xFEFF"

definition trim :: "jstring \<Rightarrow> jstring" where
  "trim s = rev (dropWhile isWhiteSpace (rev (dropWhile isWhiteSpace s)))"

definition startsWith :: "jstring \<Rightarrow> jstring \<Rightarrow> bool" where
  "startsWith s p \<longleftrightarrow> take (length p) s = p"

definition endsWith :: "jstring \<Rightarrow> jstring \<Rightarrow> bool" where
  "endsWith s q \<longleftrightarrow> length q \<le> length s \<and> drop (length s - length q) s = q"

text \<open>
  \<open>s.replace(/^p/, '')\<close> and \<open>s.replace(/q$/, '')\<close> for a literal \<open>p\<close>, \<open>q\<close>: the
  regular expressions have no flags, so \<open>^\<close> is the start and \<open>$\<close> the end of the whole
  string, and a string that does not match is returned as it is.
\<close>

definition replaceAtStart :: "jstring \<Rightarrow> jstring \<Rightarrow> jstring" where
  "replaceAtStart p s = (if startsWith s p then drop (length p) s else s)"

definition replaceAtEnd :: "jstring \<Rightarrow> jstring \<Rightarrow> jstring" where
  "replaceAtEnd q s = (if endsWith s q then take (length s - length q) s else s)"

text \<open>\<open>Array.prototype.join\<close> on an array of strings.\<close>

fun join :: "jstring \<Rightarrow> jstring list \<Rightarrow> jstring" where
  "join sep [] = []"
| "join sep [x] = x"
| "join sep (x # y # ys) = x @ sep @ join sep (y # ys)"

text \<open>The decimal digits of a non-negative integer, as a template literal renders it.\<close>

function showNat :: "nat \<Rightarrow> jstring" where
  "showNat n = (if n < 10 then [of_nat (48 + n)]
                else showNat (n div 10) @ [of_nat (48 + n mod 10)])"
  by pat_completeness auto
termination
  by (relation "measure id") auto

declare showNat.simps [simp del]

text \<open>\<open>xs.map((item, i) => f(item, i))\<close> and \<open>xs.filter((item, i) => p(item, i))\<close>.\<close>

definition mapIndexed :: "('a \<Rightarrow> nat \<Rightarrow> 'b) \<Rightarrow> 'a list \<Rightarrow> 'b list" where
  "mapIndexed f xs = map (\<lambda>(i, item). f item i) (enumerate 0 xs)"

definition filterIndexed :: "('a \<Rightarrow> nat \<Rightarrow> bool) \<Rightarrow> 'a list \<Rightarrow> 'a list" where
  "filterIndexed p xs = map snd (filter (\<lambda>(i, item). p item i) (enumerate 0 xs))"

section \<open>The create-question form (client side)\<close>

record TestCase =
  input :: jstring
  expectedOutput :: jstring

record StarterCode =
  python :: jstring
  javascript :: jstring
  cpp :: jstring
  java :: jstring

text \<open>
  The body of a successful generation response as the form reads it: either key may be
  missing (\<open>None\<close>), which is what the \<open>||\<close> and \<open>&&\<close> of the merge step test.
\<close>

record GeneratedData =
  starterCode :: "StarterCode option"
  hiddenTestCases :: "TestCase list option"

record Content =
  problemDescription :: jstring
  constraints :: jstring
  inputFormat :: jstring
  outputFormat :: jstring
  exampleInputs :: "jstring list"
  exampleOutputs :: "jstring list"
  explanations :: "jstring list"
  hiddenTestCases :: "TestCase list"
  starterCode :: StarterCode

record FormData =
  subjectId :: jstring
  type :: jstring
  order :: int
  isActive :: bool
  deadline :: jstring
  content :: Content

definition initialFormData :: FormData where
  "initialFormData =
     \<lparr>subjectId = js ''icp'',
      type = js ''coding'',
      order = 1,
      isActive = True,
      deadline = [],
      content =
        \<lparr>problemDescription = [],
         constraints = [],
         inputFormat = [],
         outputFormat = [],
         exampleInputs = [[]],
         exampleOutputs = [[]],
         explanations = [[]],
         hiddenTestCases = [\<lparr>input = [], expectedOutput = []\<rparr>],
         starterCode = \<lparr>python = [], javascript = [], cpp = [], java = []\<rparr>\<rparr>\<rparr>"

datatype exampleField = ExampleInputs | ExampleOutputs | Explanations

datatype testCaseField = Input | ExpectedOutput

text \<open>
  Each handler passes an updater to \<open>setFormData\<close>: a function from the pending state
  \<open>prev\<close> to the next one. The two removal handlers first test a guard on \<open>formData\<close>, the
  state of the render the handler was created in, and return without an update when it
  holds; their updater itself has no guard. The rendered state is therefore an argument
  of its own: it is \<open>prev\<close> when the event is the first one handled since the render, and
  an older state when another update is pending.
\<close>

definition handleExampleChange :: "nat \<Rightarrow> exampleField \<Rightarrow> jstring \<Rightarrow> FormData \<Rightarrow> FormData" where
  "handleExampleChange index field v prev =
     (let c = content prev;
          upd = mapIndexed (\<lambda>item i. if i = index then v else item)
      in prev\<lparr>content :=
           (case field of
              ExampleInputs \<Rightarrow> c\<lparr>exampleInputs := upd (exampleInputs c)\<rparr>
            | ExampleOutputs \<Rightarrow> c\<lparr>exampleOutputs := upd (exampleOutputs c)\<rparr>
            | Explanations \<Rightarrow> c\<lparr>explanations := upd (explanations c)\<rparr>)\<rparr>)"

definition addExample :: "FormData \<Rightarrow> FormData" where
  "addExample prev =
     (let c = content prev
      in prev\<lparr>content :=
           c\<lparr>exampleInputs := exampleInputs c @ [[]],
             exampleOutputs := exampleOutputs c @ [[]],
             explanations := explanations c @ [[]]\<rparr>\<rparr>)"

definition removeExample :: "FormData \<Rightarrow> nat \<Rightarrow> FormData \<Rightarrow> FormData" where
  "removeExample formData index prev =
     (if length (exampleInputs (content formData)) \<le> 1 then prev
      else
        (let c = content prev
         in prev\<lparr>content :=
              c\<lparr>exampleInputs := filterIndexed (\<lambda>_ i. i \<noteq> index) (exampleInputs c),
                exampleOutputs := filterIndexed (\<lambda>_ i. i \<noteq> index) (exampleOutputs c),
                explanations := filterIndexed (\<lambda>_ i. i \<noteq> index) (explanations c)\<rparr>\<rparr>))"

definition handleTestCaseChange :: "nat \<Rightarrow> testCaseField \<Rightarrow> jstring \<Rightarrow> FormData \<Rightarrow> FormData" where
  "handleTestCaseChange index field v prev =
     (let c = content prev
      in prev\<lparr>content :=
           c\<lparr>hiddenTestCases :=
               mapIndexed
                 (\<lambda>tc i. if i = index
                          then (case field of Input \<Rightarrow> tc\<lparr>input := v\<rparr>
                                | ExpectedOutput \<Rightarrow> tc\<lparr>expectedOutput := v\<rparr>)
                          else tc)
                 (hiddenTestCases c)\<rparr>\<rparr>)"

definition addTestCase :: "FormData \<Rightarrow> FormData" where
  "addTestCase prev =
     (let c = content prev
      in prev\<lparr>content :=
           c\<lparr>hiddenTestCases := hiddenTestCases c @ [\<lparr>input = [], expectedOutput = []\<rparr>]\<rparr>\<rparr>)"

definition removeTestCase :: "FormData \<Rightarrow> nat \<Rightarrow> FormData \<Rightarrow> FormData" where
  "removeTestCase formData index prev =
     (if length (hiddenTestCases (content formData)) \<le> 1 then prev
      else
        (let c = content prev
         in prev\<lparr>content :=
              c\<lparr>hiddenTestCases := filterIndexed (\<lambda>_ i. i \<noteq> index) (hiddenTestCases c)\<rparr>\<rparr>))"

datatype editOp =
    HandleExampleChange nat exampleField jstring
  | AddExample
  | RemoveExample nat
  | HandleTestCaseChange nat testCaseField jstring
  | AddTestCase
  | RemoveTestCase nat

text \<open>One editing event, handled by the handlers of the render of \<open>formData\<close>.\<close>

fun applyOp :: "FormData \<Rightarrow> editOp \<Rightarrow> FormData \<Rightarrow> FormData" where
  "applyOp formData (HandleExampleChange i f v) prev = handleExampleChange i f v prev"
| "applyOp formData AddExample prev = addExample prev"
| "applyOp formData (RemoveExample i) prev = removeExample formData i prev"
| "applyOp formData (HandleTestCaseChange i f v) prev = handleTestCaseChange i f v prev"
| "applyOp formData AddTestCase prev = addTestCase prev"
| "applyOp formData (RemoveTestCase i) prev = removeTestCase formData i prev"


text \<open>The invariant of the example and test-case arrays of the form.\<close>

definition formInvariant :: "FormData \<Rightarrow> bool" where
  "formInvariant s \<longleftrightarrow>
     (let c = content s
      in length (exampleOutputs c) = length (exampleInputs c) \<and>
         length (explanations c) = length (exampleInputs c) \<and>
         1 \<le> length (exampleInputs c) \<and>
         1 \<le> length (hiddenTestCases c))"

text \<open>
  The state update of \<open>handleGenerateAssets\<close> after a successful response:
  \<open>generatedData.starterCode || prev.content.starterCode\<close>, and the generated test cases
  when they are there and their length is positive.
\<close>

definition mergeGenerated :: "GeneratedData \<Rightarrow> FormData \<Rightarrow> FormData" where
  "mergeGenerated generatedData prev =
     (let c = content prev
      in prev\<lparr>content :=
           c\<lparr>starterCode :=
               (case GeneratedData.starterCode generatedData of
                  Some sc \<Rightarrow> sc
                | None \<Rightarrow> starterCode c),
             hiddenTestCases :=
               (case GeneratedData.hiddenTestCases generatedData of
                  Some tcs \<Rightarrow> if length tcs > 0 then tcs else hiddenTestCases c
                | None \<Rightarrow> hiddenTestCases c)\<rparr>\<rparr>)"

section \<open>The generation endpoint (server side)\<close>

subsection \<open>Parsed JSON values\<close>

text \<open>
  What \<open>JSON.parse\<close> returns. An object is the list of its own properties (distinct
  keys). The code below looks at a number only to tell zero from non-zero.
\<close>

datatype json =
    JNull
  | JBool bool
  | JNum rat
  | JStr jstring
  | JArr "json list"
  | JObj "(jstring \<times> json) list"

text \<open>Truthiness of a value that was read from a property; \<open>None\<close> is \<open>undefined\<close>.\<close>

fun truthy :: "json option \<Rightarrow> bool" where
  "truthy None = False"
| "truthy (Some JNull) = False"
| "truthy (Some (JBool b)) = b"
| "truthy (Some (JNum n)) = (n \<noteq> 0)"
| "truthy (Some (JStr s)) = (s \<noteq> [])"
| "truthy (Some (JArr xs)) = True"
| "truthy (Some (JObj kvs)) = True"

text \<open>
  What the handler's inner \<open>try\<close> can catch: the \<open>SyntaxError\<close> of \<open>JSON.parse\<close> with
  its diagnostic, the \<open>TypeError\<close> of reading a property of \<open>null\<close> or \<open>undefined\<close>,
  and the \<open>Error\<close> the handler throws itself.
\<close>

datatype exn = SyntaxError jstring | TypeError | Error jstring

text \<open>
  Reading the property \<open>k\<close> of a value: it throws on \<open>null\<close> and \<open>undefined\<close>, finds an
  own property of an object, and is \<open>undefined\<close> otherwise (none of the keys the handler
  reads is inherited by an object, or is a property of a boolean, a number, a string or
  an array).
\<close>

fun getProp :: "json option \<Rightarrow> jstring \<Rightarrow> exn + json option" where
  "getProp None k = Inl TypeError"
| "getProp (Some JNull) k = Inl TypeError"
| "getProp (Some (JObj kvs)) k = Inr (map_of kvs k)"
| "getProp (Some (JBool b)) k = Inr None"
| "getProp (Some (JNum n)) k = Inr None"
| "getProp (Some (JStr s)) k = Inr None"
| "getProp (Some (JArr xs)) k = Inr None"

subsection \<open>Requests, responses and the server log\<close>

text \<open>
  The request body, \<open>GenerationRequestData\<close>. A field is \<open>None\<close> when the body has no
  such key (or has \<open>null\<close> there: both are falsy, and the first check of the handler
  rejects both).
\<close>

record GenerationRequestData =
  problemDescription :: "jstring option"
  constraints :: "jstring option"
  inputFormat :: "jstring option"
  outputFormat :: "jstring option"
  exampleInputs :: "jstring list option"
  exampleOutputs :: "jstring list option"
  explanations :: "jstring list option"

datatype responseBody = ErrorBody jstring | AssetsBody json

record response =
  status :: nat
  body :: responseBody

datatype logArg = Text jstring | Thrown exn | ThrownByGenerator "jstring option"

datatype logEntry = ConsoleError "logArg list" | ConsoleWarn "logArg list"

definition errorResponse :: "nat \<Rightarrow> jstring \<Rightarrow> response" where
  "errorResponse code msg = \<lparr>status = code, body = ErrorBody msg\<rparr>"

subsection \<open>Input validation\<close>

text \<open>
  \<open>!value || String(value).trim() === ''\<close>, for a text field and for an array field.
  An array is truthy, and \<open>String\<close> of an array of strings joins them with a comma.
\<close>

definition missingText :: "jstring option \<Rightarrow> bool" where
  "missingText v = (case v of None \<Rightarrow> True | Some s \<Rightarrow> s = [] \<or> trim s = [])"

definition missingArray :: "jstring list option \<Rightarrow> bool" where
  "missingArray v = (case v of None \<Rightarrow> True | Some xs \<Rightarrow> trim (join (js '','') xs) = [])"

definition missingFields :: "GenerationRequestData \<Rightarrow> jstring list" where
  "missingFields b =
     map fst (filter snd
       [(js ''problemDescription'', missingText (problemDescription b)),
        (js ''constraints'', missingText (constraints b)),
        (js ''inputFormat'', missingText (inputFormat b)),
        (js ''outputFormat'', missingText (outputFormat b)),
        (js ''exampleInputs'', missingArray (exampleInputs b)),
        (js ''exampleOutputs'', missingArray (exampleOutputs b)),
        (js ''explanations'', missingArray (explanations b))])"

subsection \<open>The prompt\<close>

text \<open>A template literal renders \<open>undefined\<close> as the text \<open>undefined\<close>.\<close>

definition interpolate :: "jstring option \<Rightarrow> jstring" where
  "interpolate v = (case v of None \<Rightarrow> js ''undefined'' | Some s \<Rightarrow> s)"

definition elemAt :: "'a list \<Rightarrow> nat \<Rightarrow> 'a option" where
  "elemAt xs i = (if i < length xs then Some (xs ! i) else None)"

text \<open>
  The last interpolation of an example block:
  \<open>explanations && explanations[index] ? `Explanation:\n${explanations[index]}` : ''\<close>.
\<close>

definition explanationLine :: "jstring list option \<Rightarrow> nat \<Rightarrow> jstring" where
  "explanationLine expls index =
     (case expls of
        None \<Rightarrow> []
      | Some es \<Rightarrow>
          (case elemAt es index of
             None \<Rightarrow> []
           | Some e \<Rightarrow> if e \<noteq> [] then js ''Explanation:\<newline>'' @ e else []))"

definition exampleBlock ::
  "jstring list \<Rightarrow> jstring list option \<Rightarrow> jstring \<Rightarrow> nat \<Rightarrow> jstring" where
  "exampleBlock outs expls inp index =
     js ''\<newline>Example '' @ showNat (index + 1) @ js '':\<newline>'' @
     js ''Input:\<newline>'' @ inp @ js ''\<newline>'' @
     js ''Output:\<newline>'' @ interpolate (elemAt outs index) @ js ''\<newline>'' @
     explanationLine expls index @ js ''\<newline>''"

definition examplesString ::
  "jstring list \<Rightarrow> jstring list \<Rightarrow> jstring list option \<Rightarrow> jstring" where
  "examplesString ins outs expls =
     join (js ''\<newline>---\<newline>'') (mapIndexed (exampleBlock outs expls) ins)"

definition promptInstructions :: jstring where
  \<open>promptInstructions =
     js ''INSTRUCTIONS:\<newline>'' @
     js ''1.  Generate LeetCode-style starter code snippets (just the class or function definition, no input/output handling) for Python, JavaScript, C++, and Java.\<newline>'' @
     js ''2.  Generate exactly 20 diverse hidden test cases. Include edge cases (empty, single element, max constraints), small cases, typical cases, and potentially tricky cases based on the constraints and examples.\<newline>'' @
     js ''3.  Return the results ONLY as a single JSON object in the following exact format (no markdown code blocks, no extra text before or after):\<newline>'' @
     js ''\<newline>'' @
     js ''{\<newline>'' @
     js ''  "starterCode": {\<newline>'' @
     js ''    "python": "...",\<newline>'' @
     js ''    "javascript": "...",\<newline>'' @
     js ''    "cpp": "...",\<newline>'' @
     js ''    "java": "..."\<newline>'' @
     js ''  },\<newline>'' @
     js ''  "hiddenTestCases": [\<newline>'' @
     js ''    {"input": "...", "expectedOutput": "..."},\<newline>'' @
     js ''    {"input": "...", "expectedOutput": "..."},\<newline>'' @
     js ''    // ... exactly 20 items total ...\<newline>'' @
     js ''  ]\<newline>'' @
     js ''}\<newline>''\<close>

definition buildPrompt ::
  "jstring option \<Rightarrow> jstring option \<Rightarrow> jstring option \<Rightarrow> jstring option \<Rightarrow>
   jstring list \<Rightarrow> jstring list \<Rightarrow> jstring list option \<Rightarrow> jstring" where
  "buildPrompt pd cs inFmt outFmt ins outs expls =
     js ''You are a helpful assistant for creating competitive programming problems. Based on the following problem details, generate LeetCode-style starter code snippets and hidden test cases.\<newline>'' @
     js ''\<newline>'' @
     js ''Problem Description:\<newline>'' @ interpolate pd @ js ''\<newline>'' @
     js ''\<newline>'' @
     js ''Constraints:\<newline>'' @ interpolate cs @ js ''\<newline>'' @
     js ''\<newline>'' @
     js ''Input Format:\<newline>'' @ interpolate inFmt @ js ''\<newline>'' @
     js ''\<newline>'' @
     js ''Output Format:\<newline>'' @ interpolate outFmt @ js ''\<newline>'' @
     js ''\<newline>'' @
     js ''Examples:\<newline>'' @ examplesString ins outs expls @ js ''\<newline>'' @
     js ''\<newline>'' @
     promptInstructions"

subsection \<open>Cleaning, parsing and checking the generator's text\<close>

definition cleanResponse :: "jstring \<Rightarrow> jstring" where
  "cleanResponse responseText =
     (let cleanedResponse = trim responseText
      in if startsWith cleanedResponse (js ''```json'')
         then replaceAtEnd (js ''\<newline>```'') (replaceAtStart (js ''```json\<newline>'') cleanedResponse)
         else if startsWith cleanedResponse (js ''```'')
         then replaceAtEnd (js ''\<newline>```'') (replaceAtStart (js ''```\<newline>'') cleanedResponse)
         else cleanedResponse)"

definition invalidStructure :: exn where
  "invalidStructure = Error (js ''Invalid or incomplete structure in AI response.'')"

text \<open>
  One disjunct \<open>!x ||\<close> of the structure check: \<open>x\<close> is read (which may throw), a falsy
  \<open>x\<close> makes the check throw, a truthy one goes on to the rest.
\<close>

definition require :: "exn + json option \<Rightarrow> (json option \<Rightarrow> exn + 'a) \<Rightarrow> exn + 'a" where
  "require x rest =
     (case x of
        Inl e \<Rightarrow> Inl e
      | Inr v \<Rightarrow> if truthy v then rest v else Inl invalidStructure)"

definition lengthWarning :: "nat \<Rightarrow> logEntry list" where
  "lengthWarning n =
     (if n < 18 \<or> n > 22
      then [ConsoleWarn [Text (js ''Gemini returned '' @ showNat n @ js '' test cases instead of 20.'')]]
      else [])"

text \<open>
  The checks after \<open>JSON.parse\<close>, in the order of the source. The result is the thrown
  value, or the warnings logged when nothing is thrown.
\<close>

definition validateAssets :: "json \<Rightarrow> exn + logEntry list" where
  "validateAssets generatedAssets =
     (let ga = Some generatedAssets
      in require (getProp ga (js ''starterCode'')) (\<lambda>sc.
         require (getProp sc (js ''python'')) (\<lambda>_.
         require (getProp sc (js ''javascript'')) (\<lambda>_.
         require (getProp sc (js ''cpp'')) (\<lambda>_.
         require (getProp sc (js ''java'')) (\<lambda>_.
         require (getProp ga (js ''hiddenTestCases'')) (\<lambda>htc.
           (case htc of
              Some (JArr tcs) \<Rightarrow>
                (case tcs of
                   [] \<Rightarrow> Inl invalidStructure
                 | tc # _ \<Rightarrow>
                     require (getProp (Some tc) (js ''input'')) (\<lambda>_.
                     require (getProp (Some tc) (js ''expectedOutput'')) (\<lambda>_.
                     Inr (lengthWarning (length tcs)))))
            | _ \<Rightarrow> Inl invalidStructure))))))))"

text \<open>The body of the inner \<open>try\<close>: parse the cleaned text, then check the value.\<close>

definition parseAndValidate ::
  "(jstring \<Rightarrow> jstring + json) \<Rightarrow> jstring \<Rightarrow> exn + json \<times> logEntry list" where
  "parseAndValidate JSONparse cleanedResponse =
     (case JSONparse cleanedResponse of
        Inl diagnostic \<Rightarrow> Inl (SyntaxError diagnostic)
      | Inr generatedAssets \<Rightarrow>
          (case validateAssets generatedAssets of
             Inl e \<Rightarrow> Inl e
           | Inr warnings \<Rightarrow> Inr (generatedAssets, warnings)))"

definition processingFailed :: jstring where
  "processingFailed = js ''Failed to process AI response. Please check the format or try again.''"

text \<open>
  From the generator's text to the response and the log: the inner \<open>try\<close> with its
  \<open>catch\<close>, and the success response. \<open>JSONparse\<close> stands for the runtime's \<open>JSON.parse\<close>,
  \<open>Inl\<close> carrying the diagnostic of its \<open>SyntaxError\<close>.
\<close>

definition processResponse ::
  "(jstring \<Rightarrow> jstring + json) \<Rightarrow> jstring \<Rightarrow> response \<times> logEntry list" where
  "processResponse JSONparse responseText =
     (case parseAndValidate JSONparse (cleanResponse responseText) of
        Inl parseError \<Rightarrow>
          (errorResponse 500 processingFailed,
           [ConsoleError [Text (js ''Failed to parse Gemini response:''), Text responseText],
            ConsoleError [Text (js ''Parse error:''), Thrown parseError]])
      | Inr (generatedAssets, warnings) \<Rightarrow>
          (\<lparr>status = 200, body = AssetsBody generatedAssets\<rparr>, warnings))"

subsection \<open>The handler\<close>

definition invalidExampleInputs :: jstring where
  "invalidExampleInputs = js ''At least one valid example input is required.''"

definition invalidExampleOutputs :: jstring where
  "invalidExampleOutputs =
     js ''Example outputs are required, must match the number of inputs, and cannot be empty.''"

text \<open>
  \<open>POST\<close>, from the parsed request body to the response and what is logged. The
  environment is a parameter: whether \<open>GEMINI_API_KEY\<close> is set, the generator call
  (\<open>Inl\<close> when it throws, with the message of the thrown value if it is an \<open>Error\<close>), and
  \<open>JSON.parse\<close>. The authorisation test of the source is the constant \<open>true\<close>, so its
  401 branch is never taken; the CORS headers added to every response are left out.
\<close>

definition POST ::
  "bool \<Rightarrow> (jstring \<Rightarrow> jstring option + jstring) \<Rightarrow> (jstring \<Rightarrow> jstring + json) \<Rightarrow>
   GenerationRequestData \<Rightarrow> response \<times> logEntry list" where
  "POST apiKeySet generateContent JSONparse b =
     (let missing = missingFields b
      in if length missing > 0
         then (errorResponse 400 (js ''Missing required fields: '' @ join (js '', '') missing), [])
         else
           (case exampleInputs b of
              None \<Rightarrow> (errorResponse 400 invalidExampleInputs, [])
            | Some ins \<Rightarrow>
                if length ins = 0 \<or> list_ex (\<lambda>ex. trim ex = []) ins
                then (errorResponse 400 invalidExampleInputs, [])
                else
                  (case exampleOutputs b of
                     None \<Rightarrow> (errorResponse 400 invalidExampleOutputs, [])
                   | Some outs \<Rightarrow>
                       if length outs \<noteq> length ins \<or> list_ex (\<lambda>ex. trim ex = []) outs
                       then (errorResponse 400 invalidExampleOutputs, [])
                       else if \<not> apiKeySet
                       then (errorResponse 500 (js ''AI service is not configured on the server.''),
                             [ConsoleError [Text (js ''Gemini API Key is not configured.'')]])
                       else
                         (case generateContent
                                 (buildPrompt (problemDescription b) (constraints b)
                                    (inputFormat b) (outputFormat b) ins outs (explanations b)) of
                            Inl error \<Rightarrow>
                              (errorResponse 500
                                 (js ''Generation failed: '' @
                                  (case error of
                                     Some errorMessage \<Rightarrow> errorMessage
                                   | None \<Rightarrow> js ''Unknown server error occurred.'')),
                               [ConsoleError [Text (js ''Error in /api/generate-question-assets:''),
                                              ThrownByGenerator error]])
                          | Inr responseText \<Rightarrow> processResponse JSONparse responseText))))"

section \<open>Notions used to state the properties\<close>

text \<open>A text field that is absent, or blank after trimming.\<close>

definition blankText :: "jstring option \<Rightarrow> bool" where
  "blankText v = (case v of None \<Rightarrow> True | Some s \<Rightarrow> trim s = [])"

text \<open>
  A request that passes the three checks of the input validation, with the example
  inputs \<open>ins\<close> and the example outputs \<open>outs\<close>, and the prompt built from it.
\<close>

definition passesValidation :: "GenerationRequestData \<Rightarrow> jstring list \<Rightarrow> jstring list \<Rightarrow> bool" where
  "passesValidation b ins outs \<longleftrightarrow>
     missingFields b = [] \<and>
     exampleInputs b = Some ins \<and> ins \<noteq> [] \<and> \<not> list_ex (\<lambda>ex. trim ex = []) ins \<and>
     exampleOutputs b = Some outs \<and> length outs = length ins \<and>
     \<not> list_ex (\<lambda>ex. trim ex = []) outs"

definition promptOf :: "GenerationRequestData \<Rightarrow> jstring list \<Rightarrow> jstring list \<Rightarrow> jstring" where
  "promptOf b ins outs =
     buildPrompt (problemDescription b) (constraints b) (inputFormat b) (outputFormat b)
       ins outs (explanations b)"

text \<open>A text inside a fenced code block, with the \<open>json\<close> tag and without it.\<close>

definition fenceJson :: "jstring \<Rightarrow> jstring" where
  "fenceJson t = js ''```json\<newline>'' @ t @ js ''\<newline>```''"

definition fencePlain :: "jstring \<Rightarrow> jstring" where
  "fencePlain t = js ''```\<newline>'' @ t @ js ''\<newline>```''"

text \<open>Reading a key of a parsed value where nothing can throw.\<close>

definition readKey :: "json \<Rightarrow> jstring \<Rightarrow> json option" where
  "readKey v k = (case v of JObj kvs \<Rightarrow> map_of kvs k | _ \<Rightarrow> None)"

definition testCasesOf :: "json \<Rightarrow> json list" where
  "testCasesOf v = (case readKey v (js ''hiddenTestCases'') of Some (JArr tcs) \<Rightarrow> tcs | _ \<Rightarrow> [])"

text \<open>
  A parsed value with the structure the handler asks for: a starter code with a truthy
  entry for each of the four languages, and a non-empty array of test cases whose first
  element has a truthy input and a truthy expected output. Nothing is asked of the other
  test cases, nor of their number.
\<close>

definition structurallyValid :: "json \<Rightarrow> bool" where
  "structurallyValid v \<longleftrightarrow>
     (case readKey v (js ''starterCode'') of
        None \<Rightarrow> False
      | Some sc \<Rightarrow>
          truthy (readKey sc (js ''python'')) \<and> truthy (readKey sc (js ''javascript'')) \<and>
          truthy (readKey sc (js ''cpp'')) \<and> truthy (readKey sc (js ''java''))) \<and>
     (case testCasesOf v of
        [] \<Rightarrow> False
      | tc # rest \<Rightarrow> truthy (readKey tc (js ''input'')) \<and> truthy (readKey tc (js ''expectedOutput'')))"

definition holdsString :: "json option \<Rightarrow> bool" where
  "holdsString x = (case x of Some (JStr s) \<Rightarrow> True | _ \<Rightarrow> False)"

definition holdsNonEmptyString :: "json option \<Rightarrow> bool" where
  "holdsNonEmptyString x = (case x of Some (JStr s) \<Rightarrow> s \<noteq> [] | _ \<Rightarrow> False)"

definition firstTestCaseFilled :: "json \<Rightarrow> bool" where
  "firstTestCaseFilled v =
     (case testCasesOf v of
        [] \<Rightarrow> False
      | tc # rest \<Rightarrow>
          holdsNonEmptyString (readKey tc (js ''input'')) \<and>
          holdsNonEmptyString (readKey tc (js ''expectedOutput'')))"

text \<open>
  The bundle as the specification words it: the four starter-code keys each hold a
  string, which may be empty, and the first test case is filled in.
\<close>

definition bundleWithStrings :: "json \<Rightarrow> bool" where
  "bundleWithStrings v \<longleftrightarrow>
     (case readKey v (js ''starterCode'') of
        None \<Rightarrow> False
      | Some sc \<Rightarrow>
          holdsString (readKey sc (js ''python'')) \<and> holdsString (readKey sc (js ''javascript'')) \<and>
          holdsString (readKey sc (js ''cpp'')) \<and> holdsString (readKey sc (js ''java''))) \<and>
     firstTestCaseFilled v"

text \<open>The same with no starter-code string empty.\<close>

definition bundleWithNonEmptyStrings :: "json \<Rightarrow> bool" where
  "bundleWithNonEmptyStrings v \<longleftrightarrow>
     (case readKey v (js ''starterCode'') of
        None \<Rightarrow> False
      | Some sc \<Rightarrow>
          holdsNonEmptyString (readKey sc (js ''python'')) \<and>
          holdsNonEmptyString (readKey sc (js ''javascript'')) \<and>
          holdsNonEmptyString (readKey sc (js ''cpp'')) \<and>
          holdsNonEmptyString (readKey sc (js ''java''))) \<and>
     firstTestCaseFilled v"

section \<open>Sample inputs\<close>

text \<open>A request for a problem with two examples, and variations of it.\<close>

definition sampleRequest :: GenerationRequestData where
  "sampleRequest =
     \<lparr>problemDescription = Some (js ''Add two numbers.''),
      constraints = Some (js ''0 <= a, b <= 100''),
      inputFormat = Some (js ''Two integers.''),
      outputFormat = Some (js ''One integer.''),
      exampleInputs = Some [js ''1 2'', js ''3 4''],
      exampleOutputs = Some [js ''3'', js ''7''],
      explanations = Some [js ''1 + 2 = 3'', js ''3 + 4 = 7'']\<rparr>"

text \<open>
  A generator answer in JSON with the starter code \<open>py\<close> for Python and one test case,
  and the value it parses to.
\<close>

definition assetsText :: "jstring \<Rightarrow> jstring" where
  \<open>assetsText py =
     js ''{"starterCode":{"python":"'' @ py @
     js ''","javascript":"function f() {}","cpp":"void f() {}","java":"class S {}"},'' @
     js ''"hiddenTestCases":[{"input":"1 2","expectedOutput":"3"}]}''\<close>

definition assetsValue :: "jstring \<Rightarrow> json" where
  "assetsValue py =
     JObj [(js ''starterCode'',
            JObj [(js ''python'', JStr py),
                  (js ''javascript'', JStr (js ''function f() {}'')),
                  (js ''cpp'', JStr (js ''void f() {}'')),
                  (js ''java'', JStr (js ''class S {}''))]),
           (js ''hiddenTestCases'',
            JArr [JObj [(js ''input'', JStr (js ''1 2'')),
                        (js ''expectedOutput'', JStr (js ''3''))]])]"

text \<open>A parsed answer with \<open>n\<close> copies of one test case.\<close>

definition assetsWithTestCases :: "nat \<Rightarrow> json" where
  "assetsWithTestCases n =
     JObj [(js ''starterCode'',
            JObj [(js ''python'', JStr (js ''def f(): pass'')),
                  (js ''javascript'', JStr (js ''function f() {}'')),
                  (js ''cpp'', JStr (js ''void f() {}'')),
                  (js ''java'', JStr (js ''class S {}''))]),
           (js ''hiddenTestCases'',
            JArr (replicate n (JObj [(js ''input'', JStr (js ''1 2'')),
                                     (js ''expectedOutput'', JStr (js ''3''))])))]"

text \<open>
  A parser and a generator for the examples. The parser agrees with \<open>JSON.parse\<close> on the
  texts the examples give it: the two answers above, and texts that are no JSON at all.
\<close>

definition sampleParse :: "jstring \<Rightarrow> jstring + json" where
  "sampleParse t =
     (if t = assetsText (js ''def f(): pass'') then Inr (assetsValue (js ''def f(): pass''))
      else if t = assetsText [] then Inr (assetsValue [])
      else Inl (js ''Unexpected token''))"

definition generatorAnswering :: "jstring \<Rightarrow> jstring \<Rightarrow> jstring option + jstring" where
  "generatorAnswering answer prompt = Inr answer"

section \<open>Properties of the string operations\<close>


lemma js_Nil [simp]: "js [] = []"
  by (simp add: js_def)

lemma js_eq_Nil_iff [simp]: "js s = [] \<longleftrightarrow> s = []"
  by (simp add: js_def)

lemma js_append: "js (a @ b) = js a @ js b"
  by (simp add: js_def)

lemma unat_of_char: "unat (of_char c :: 16 word) = of_char c"
proof -
  have "(of_char c :: nat) < 2 ^ 16"
    by (rule less_trans [OF nat_of_char_less_256]) simp
  moreover have "(of_char c :: 16 word) = of_nat (of_char c)"
    by (simp add: of_nat_of_char)
  ultimately show ?thesis
    by (simp add: of_nat_inverse)
qed

lemma of_char_word_inject: "(of_char a :: 16 word) = of_char b \<longleftrightarrow> a = b"
proof
  assume "(of_char a :: 16 word) = of_char b"
  then have "unat (of_char a :: 16 word) = unat (of_char b :: 16 word)" by simp
  then show "a = b" by (simp add: unat_of_char)
qed simp

lemma js_inject: "js a = js b \<longleftrightarrow> a = b"
proof -
  have "inj (of_char :: char \<Rightarrow> 16 word)"
    by (rule injI) (simp add: of_char_word_inject)
  then show ?thesis
    by (simp add: js_def inj_map_eq_map)
qed

lemma trim_Nil_iff: "trim s = [] \<longleftrightarrow> (\<forall>c\<in>set s. isWhiteSpace c)"
proof (cases "dropWhile isWhiteSpace s = []")
  case True
  then have "\<forall>c\<in>set s. isWhiteSpace c"
    by simp
  moreover have "trim s = []"
    unfolding trim_def True by simp
  ultimately show ?thesis by simp
next
  case False
  then have "\<not> isWhiteSpace (hd (dropWhile isWhiteSpace s))"
    by (rule hd_dropWhile)
  moreover from False have "hd (dropWhile isWhiteSpace s) \<in> set (dropWhile isWhiteSpace s)"
    by simp
  ultimately have "\<not> (\<forall>c\<in>set (rev (dropWhile isWhiteSpace s)). isWhiteSpace c)"
    by auto
  then have "trim s \<noteq> []"
    by (simp add: trim_def)
  moreover from False have "\<not> (\<forall>c\<in>set s. isWhiteSpace c)"
    by simp
  ultimately show ?thesis by simp
qed

lemma trim_id:
  assumes "s \<noteq> []" "\<not> isWhiteSpace (hd s)" "\<not> isWhiteSpace (last s)"
  shows "trim s = s"
proof -
  from assms(1,2) have "dropWhile isWhiteSpace s = s"
    by (cases s) simp_all
  moreover from assms(1,3) have "dropWhile isWhiteSpace (rev s) = rev s"
    by (cases "rev s") (simp_all add: last_rev [symmetric] hd_rev)
  ultimately show ?thesis
    by (simp add: trim_def)
qed

section \<open>The sample inputs evaluated\<close>

lemma sampleRequest_passes:
  "passesValidation sampleRequest [js ''1 2'', js ''3 4''] [js ''3'', js ''7'']"
  by (simp add: passesValidation_def missingFields_def sampleRequest_def missingText_def
      missingArray_def trim_Nil_iff js_def isWhiteSpace_def)

lemma sampleParse_answer:
  "sampleParse (assetsText (js ''def f(): pass'')) = Inr (assetsValue (js ''def f(): pass''))"
  by (simp add: sampleParse_def)

lemma cleanResponse_assetsText: "cleanResponse (assetsText py) = assetsText py"
proof -
  have "trim (assetsText py) = assetsText py"
    by (rule trim_id) (simp_all add: assetsText_def js_def isWhiteSpace_def)
  moreover have "\<not> startsWith (assetsText py) (js ''```'')"
    by (simp add: startsWith_def assetsText_def js_def)
  moreover have "\<not> startsWith (assetsText py) (js ''```json'')"
    by (simp add: startsWith_def assetsText_def js_def)
  ultimately show ?thesis
    by (simp add: cleanResponse_def)
qed

lemma validateAssets_sample:
  "validateAssets (assetsValue (js ''def f(): pass'')) = Inr (lengthWarning 1)"
  by (simp add: validateAssets_def assetsValue_def require_def js_inject)

section \<open>Properties of cleaning and checking the generator's text\<close>

lemma startsWith_append: "startsWith (p @ s) p"
  by (simp add: startsWith_def)

lemma replaceAtStart_append: "replaceAtStart p (p @ s) = s"
  by (simp add: replaceAtStart_def startsWith_def)

lemma replaceAtEnd_append: "replaceAtEnd q (s @ q) = s"
  by (simp add: replaceAtEnd_def endsWith_def)

lemma trim_fenceJson: "trim (fenceJson t) = fenceJson t"
  by (rule trim_id) (simp_all add: fenceJson_def js_def isWhiteSpace_def)

lemma trim_fencePlain: "trim (fencePlain t) = fencePlain t"
  by (rule trim_id) (simp_all add: fencePlain_def js_def isWhiteSpace_def)

lemma cleanResponse_fenceJson: "cleanResponse (fenceJson t) = t"
proof -
  have "startsWith (fenceJson t) (js ''```json'')"
    by (simp add: startsWith_def fenceJson_def js_def)
  moreover have "replaceAtStart (js ''```json\<newline>'') (fenceJson t) = t @ js ''\<newline>```''"
    unfolding fenceJson_def by (rule replaceAtStart_append)
  ultimately show ?thesis
    by (simp add: cleanResponse_def trim_fenceJson replaceAtEnd_append)
qed

lemma cleanResponse_fencePlain: "cleanResponse (fencePlain t) = t"
proof -
  have "\<not> startsWith (fencePlain t) (js ''```json'')"
    by (simp add: startsWith_def fencePlain_def js_def)
  moreover have "startsWith (fencePlain t) (js ''```'')"
    by (simp add: startsWith_def fencePlain_def js_def)
  moreover have "replaceAtStart (js ''```\<newline>'') (fencePlain t) = t @ js ''\<newline>```''"
    unfolding fencePlain_def by (rule replaceAtStart_append)
  ultimately show ?thesis
    by (simp add: cleanResponse_def trim_fencePlain replaceAtEnd_append)
qed

lemma require_Inr: "require (Inr x) rest = (if truthy x then rest x else Inl invalidStructure)"
  by (simp add: require_def)

lemma truthy_readKey_getProp: "truthy (readKey v k) \<Longrightarrow> getProp (Some v) k = Inr (readKey v k)"
  by (cases v) (simp_all add: readKey_def)

lemma readKey_Some_getProp: "readKey v k = Some x \<Longrightarrow> getProp (Some v) k = Inr (Some x)"
  by (cases v) (simp_all add: readKey_def)

lemma validateAssets_structurallyValid:
  assumes "structurallyValid v"
  shows "validateAssets v = Inr (lengthWarning (length (testCasesOf v)))"
proof -
  from assms obtain sc where sc: "readKey v (js ''starterCode'') = Some sc"
    and py: "truthy (readKey sc (js ''python''))" and jsc: "truthy (readKey sc (js ''javascript''))"
    and cpp: "truthy (readKey sc (js ''cpp''))" and java: "truthy (readKey sc (js ''java''))"
    by (auto simp: structurallyValid_def split: option.splits)
  from assms obtain tc rest where tcs: "testCasesOf v = tc # rest"
    and inp: "truthy (readKey tc (js ''input''))" and out: "truthy (readKey tc (js ''expectedOutput''))"
    by (auto simp: structurallyValid_def split: list.splits)
  from tcs have htc: "readKey v (js ''hiddenTestCases'') = Some (JArr (tc # rest))"
    by (auto simp: testCasesOf_def split: option.splits json.splits)
  from py have tsc: "truthy (Some sc)"
    by (cases sc) (simp_all add: readKey_def)
  have 1: "require (getProp (Some v) (js ''starterCode'')) f = f (Some sc)" for f :: "json option \<Rightarrow> exn + logEntry list"
    by (simp add: readKey_Some_getProp [OF sc] require_Inr tsc)
  have 2: "require (getProp (Some sc) k) f = f (readKey sc k)"
    if "truthy (readKey sc k)" for k and f :: "json option \<Rightarrow> exn + logEntry list"
    using that by (simp add: truthy_readKey_getProp require_Inr)
  have 3: "require (getProp (Some v) (js ''hiddenTestCases'')) f = f (Some (JArr (tc # rest)))"
    for f :: "json option \<Rightarrow> exn + logEntry list"
    by (simp add: readKey_Some_getProp [OF htc] require_Inr)
  have 4: "require (getProp (Some tc) k) f = f (readKey tc k)"
    if "truthy (readKey tc k)" for k and f :: "json option \<Rightarrow> exn + logEntry list"
    using that by (simp add: truthy_readKey_getProp require_Inr)
  show ?thesis
    unfolding validateAssets_def Let_def
    by (simp add: 1 2 [OF py] 2 [OF jsc] 2 [OF cpp] 2 [OF java] 3 4 [OF inp] 4 [OF out] tcs)
qed

lemma processResponse_accepts:
  assumes "structurallyValid v" "JSONparse (cleanResponse responseText) = Inr v"
  shows "processResponse JSONparse responseText =
    (\<lparr>status = 200, body = AssetsBody v\<rparr>, lengthWarning (length (testCasesOf v)))"
  using assms
  by (simp add: processResponse_def parseAndValidate_def validateAssets_structurallyValid)


lemma require_Inr_iff:
  "require x rest = Inr w \<longleftrightarrow> (\<exists>y. x = Inr y \<and> truthy y \<and> rest y = Inr w)"
  by (auto simp: require_def split: sum.splits)

lemma getProp_truthy_iff:
  "(\<exists>y. getProp x k = Inr y \<and> truthy y \<and> P y) \<longleftrightarrow>
   (\<exists>v. x = Some v \<and> truthy (readKey v k) \<and> P (readKey v k))"
proof (cases x)
  case None
  then show ?thesis by simp
next
  case (Some v)
  then show ?thesis by (cases v) (auto simp: readKey_def)
qed

lemma structurallyValid_validateAssets:
  assumes "validateAssets v = Inr w"
  shows "structurallyValid v"
  using assms
  unfolding validateAssets_def Let_def structurallyValid_def testCasesOf_def
  by (auto simp: require_Inr_iff getProp_truthy_iff split: option.splits json.splits list.splits)


lemma structurallyValid_iff: "structurallyValid v \<longleftrightarrow> (\<exists>w. validateAssets v = Inr w)"
  by (blast intro: structurallyValid_validateAssets dest: validateAssets_structurallyValid)


lemma truthy_holdsNonEmptyString: "holdsNonEmptyString x \<Longrightarrow> truthy x"
  by (auto simp: holdsNonEmptyString_def split: option.splits json.splits)

lemma structurallyValid_nonEmptyStrings: "bundleWithNonEmptyStrings v \<Longrightarrow> structurallyValid v"
  by (auto simp: bundleWithNonEmptyStrings_def structurallyValid_def firstTestCaseFilled_def
      truthy_holdsNonEmptyString split: option.splits list.splits)

lemma lengthWarning_in_range: "18 \<le> n \<Longrightarrow> n \<le> 22 \<Longrightarrow> lengthWarning n = []"
  by (simp add: lengthWarning_def)

lemma showNat_17: "showNat 17 = js ''17''"
  by (simp add: showNat.simps js_def)

section \<open>Properties of the form state\<close>

subsection \<open>Indexed map and filter\<close>

lemma length_mapIndexed: "length (mapIndexed f xs) = length xs"
  by (simp add: mapIndexed_def)

lemma nth_mapIndexed: "i < length xs \<Longrightarrow> mapIndexed f xs ! i = f (xs ! i) i"
  by (simp add: mapIndexed_def nth_enumerate_eq)

lemma filter_enumerate_neq:
  "map snd (filter (\<lambda>(i, item). i \<noteq> index) (enumerate n xs)) =
     (if index < n then xs else take (index - n) xs @ drop (Suc (index - n)) xs)"
proof (induction xs arbitrary: n)
  case Nil
  show ?case by simp
next
  case (Cons x xs)
  show ?case
  proof (cases "index < n")
    case True
    then show ?thesis using Cons.IH [of "Suc n"] by simp
  next
    case False
    show ?thesis
    proof (cases "index = n")
      case True
      then show ?thesis using Cons.IH [of "Suc n"] by simp
    next
      case neq: False
      with False have gt: "n < index" by simp
      then have "index - n = Suc (index - Suc n)" by simp
      then show ?thesis using Cons.IH [of "Suc n"] gt neq by simp
    qed
  qed
qed

lemma filterIndexed_remove:
  "filterIndexed (\<lambda>_ i. i \<noteq> index) xs = take index xs @ drop (Suc index) xs"
  using filter_enumerate_neq [of index 0 xs] by (simp add: filterIndexed_def)

lemma length_filterIndexed_remove:
  "length (filterIndexed (\<lambda>_ i. i \<noteq> index) xs) =
     (if index < length xs then length xs - 1 else length xs)"
  by (auto simp: filterIndexed_remove)

lemma formInvariant_handleExampleChange:
  "formInvariant s \<Longrightarrow> formInvariant (handleExampleChange i f v s)"
  by (cases f) (simp_all add: formInvariant_def handleExampleChange_def Let_def length_mapIndexed)

lemma formInvariant_addExample: "formInvariant s \<Longrightarrow> formInvariant (addExample s)"
  by (simp add: formInvariant_def addExample_def Let_def)

lemma formInvariant_handleTestCaseChange:
  "formInvariant s \<Longrightarrow> formInvariant (handleTestCaseChange i f v s)"
  by (simp add: formInvariant_def handleTestCaseChange_def Let_def length_mapIndexed)

lemma formInvariant_addTestCase: "formInvariant s \<Longrightarrow> formInvariant (addTestCase s)"
  by (simp add: formInvariant_def addTestCase_def Let_def)


subsection \<open>Removal on the rendered state\<close>

text \<open>
  When the guard is tested on the state that is updated, that is when the event is the
  first one handled since the render, removal keeps the invariant, and so does each of
  the six operations.
\<close>

lemma formInvariant_removeExample_fresh:
  "formInvariant s \<Longrightarrow> formInvariant (removeExample s i s)"
  by (auto simp: formInvariant_def removeExample_def Let_def length_filterIndexed_remove)

lemma formInvariant_removeTestCase_fresh:
  "formInvariant s \<Longrightarrow> formInvariant (removeTestCase s i s)"
  by (auto simp: formInvariant_def removeTestCase_def Let_def length_filterIndexed_remove)

lemma formInvariant_applyOp_fresh:
  "formInvariant s \<Longrightarrow> formInvariant (applyOp s op s)"
  by (cases op)
     (simp_all add: formInvariant_handleExampleChange formInvariant_addExample
        formInvariant_removeExample_fresh formInvariant_handleTestCaseChange
        formInvariant_addTestCase formInvariant_removeTestCase_fresh)

text \<open>
  Whatever state the guard is tested on, the three example arrays are filtered together,
  so they keep one common length.
\<close>

lemma example_lengths_stay_equal:
  assumes "length (Content.exampleOutputs (content prev)) =
             length (Content.exampleInputs (content prev))"
    and "length (Content.explanations (content prev)) =
           length (Content.exampleInputs (content prev))"
  shows "length (Content.exampleOutputs (content (applyOp formData op prev))) =
           length (Content.exampleInputs (content (applyOp formData op prev))) \<and>
         length (Content.explanations (content (applyOp formData op prev))) =
           length (Content.exampleInputs (content (applyOp formData op prev)))"
proof (cases op)
  case (HandleExampleChange i f v)
  with assms show ?thesis
    by (cases f) (simp_all add: handleExampleChange_def Let_def length_mapIndexed)
next
  case (RemoveExample i)
  with assms show ?thesis
    by (simp add: removeExample_def Let_def length_filterIndexed_remove)
qed (use assms in \<open>simp_all add: addExample_def handleTestCaseChange_def addTestCase_def
      removeTestCase_def Let_def\<close>)



text \<open>
  Claim C7. Merging a generation response into the draft leaves the problem description,
  constraints, input format, output format, example inputs, example outputs and
  explanations as they were (and the fields outside \<open>content\<close> too). The starter code
  becomes the generated one when the response has it and stays otherwise; the hidden test
  cases become the generated ones when the response has a non-empty sequence and stay
  otherwise.
\<close>

theorem merge_frame:
  "(let s' = mergeGenerated g prev; c = content prev; c' = content s'
    in Content.problemDescription c' = Content.problemDescription c \<and>
       Content.constraints c' = Content.constraints c \<and>
       Content.inputFormat c' = Content.inputFormat c \<and>
       Content.outputFormat c' = Content.outputFormat c \<and>
       Content.exampleInputs c' = Content.exampleInputs c \<and>
       Content.exampleOutputs c' = Content.exampleOutputs c \<and>
       Content.explanations c' = Content.explanations c \<and>
       (\<forall>sc. GeneratedData.starterCode g = Some sc \<longrightarrow> Content.starterCode c' = sc) \<and>
       (GeneratedData.starterCode g = None \<longrightarrow> Content.starterCode c' = Content.starterCode c) \<and>
       (\<forall>tcs. GeneratedData.hiddenTestCases g = Some tcs \<and> tcs \<noteq> [] \<longrightarrow>
              Content.hiddenTestCases c' = tcs) \<and>
       (GeneratedData.hiddenTestCases g = None \<or> GeneratedData.hiddenTestCases g = Some [] \<longrightarrow>
          Content.hiddenTestCases c' = Content.hiddenTestCases c) \<and>
       subjectId s' = subjectId prev \<and> type s' = type prev \<and> order s' = order prev \<and>
       isActive s' = isActive prev \<and> deadline s' = deadline prev)"
  by (auto simp: mergeGenerated_def Let_def split: option.splits)


text \<open>A response with starter code and an empty test-case sequence, merged into the initial form.\<close>

theorem merge_frame_witness:
  "Content.starterCode (content (mergeGenerated
      \<lparr>GeneratedData.starterCode =
         Some \<lparr>python = js ''def f(): pass'', javascript = [], cpp = [], java = []\<rparr>,
       GeneratedData.hiddenTestCases = Some []\<rparr> initialFormData)) =
     \<lparr>python = js ''def f(): pass'', javascript = [], cpp = [], java = []\<rparr> \<and>
   Content.hiddenTestCases (content (mergeGenerated
      \<lparr>GeneratedData.starterCode =
         Some \<lparr>python = js ''def f(): pass'', javascript = [], cpp = [], java = []\<rparr>,
       GeneratedData.hiddenTestCases = Some []\<rparr> initialFormData)) =
     Content.hiddenTestCases (content initialFormData)"
  using merge_frame
    [of "\<lparr>GeneratedData.starterCode =
            Some \<lparr>python = js ''def f(): pass'', javascript = [], cpp = [], java = []\<rparr>,
          GeneratedData.hiddenTestCases = Some []\<rparr>" initialFormData]
  by (simp add: Let_def)


section \<open>Properties of the input validation\<close>

lemma missingText_iff: "missingText v \<longleftrightarrow> blankText v"
  by (auto simp: missingText_def blankText_def trim_def split: option.splits)

lemma POST_missing:
  "missingFields b \<noteq> [] \<Longrightarrow>
   POST apiKeySet generateContent JSONparse b =
     (errorResponse 400 (js ''Missing required fields: '' @ join (js '', '') (missingFields b)), [])"
  by (simp add: POST_def Let_def)

lemma POST_passesValidation:
  "passesValidation b ins outs \<Longrightarrow>
   POST True generateContent JSONparse b =
     (case generateContent (promptOf b ins outs) of
        Inl error \<Rightarrow>
          (errorResponse 500
             (js ''Generation failed: '' @
              (case error of
                 Some errorMessage \<Rightarrow> errorMessage
               | None \<Rightarrow> js ''Unknown server error occurred.'')),
           [ConsoleError [Text (js ''Error in /api/generate-question-assets:''),
                          ThrownByGenerator error]])
      | Inr responseText \<Rightarrow> processResponse JSONparse responseText)"
  by (simp add: POST_def passesValidation_def promptOf_def Let_def)

text \<open>
  Claim C1. When one of the four required text fields is absent or blank after trimming,
  the response is 400 with the error \<open>Missing required fields: \<close> followed by the
  comma-separated list of the missing fields, and every such blank field is in the list.
\<close>

theorem missing_fields_reported:
  "blankText (problemDescription b) \<or> blankText (constraints b) \<or>
   blankText (inputFormat b) \<or> blankText (outputFormat b) \<Longrightarrow>
   POST apiKeySet generateContent JSONparse b =
     (errorResponse 400 (js ''Missing required fields: '' @ join (js '', '') (missingFields b)), []) \<and>
   (blankText (problemDescription b) \<longrightarrow> js ''problemDescription'' \<in> set (missingFields b)) \<and>
   (blankText (constraints b) \<longrightarrow> js ''constraints'' \<in> set (missingFields b)) \<and>
   (blankText (inputFormat b) \<longrightarrow> js ''inputFormat'' \<in> set (missingFields b)) \<and>
   (blankText (outputFormat b) \<longrightarrow> js ''outputFormat'' \<in> set (missingFields b))"
proof -
  assume blank: "blankText (problemDescription b) \<or> blankText (constraints b) \<or>
    blankText (inputFormat b) \<or> blankText (outputFormat b)"
  have pd: "blankText (problemDescription b) \<Longrightarrow> js ''problemDescription'' \<in> set (missingFields b)"
    by (simp add: missingFields_def missingText_iff)
  have cs: "blankText (constraints b) \<Longrightarrow> js ''constraints'' \<in> set (missingFields b)"
    by (simp add: missingFields_def missingText_iff)
  have inf: "blankText (inputFormat b) \<Longrightarrow> js ''inputFormat'' \<in> set (missingFields b)"
    by (simp add: missingFields_def missingText_iff)
  have outf: "blankText (outputFormat b) \<Longrightarrow> js ''outputFormat'' \<in> set (missingFields b)"
    by (simp add: missingFields_def missingText_iff)
  from blank pd cs inf outf have "missingFields b \<noteq> []"
    by (metis empty_iff list.set(1))
  then show ?thesis
    using pd cs inf outf by (simp add: POST_missing)
qed

text \<open>A request with blank constraints and no output format: both are named.\<close>

theorem missing_fields_reported_witness:
  "blankText (constraints (sampleRequest\<lparr>constraints := Some (js ''  ''), outputFormat := None\<rparr>)) \<and>
   POST True (generatorAnswering []) sampleParse
     (sampleRequest\<lparr>constraints := Some (js ''  ''), outputFormat := None\<rparr>) =
     (errorResponse 400 (js ''Missing required fields: constraints, outputFormat''), [])"
proof -
  let ?b = "sampleRequest\<lparr>constraints := Some (js ''  ''), outputFormat := None\<rparr>"
  have blank: "blankText (constraints ?b)"
    by (simp add: blankText_def trim_Nil_iff js_def isWhiteSpace_def)
  have "missingFields ?b = [js ''constraints'', js ''outputFormat'']"
    by (simp add: missingFields_def sampleRequest_def missingText_def missingArray_def
        trim_Nil_iff js_def isWhiteSpace_def)
  then have "js ''Missing required fields: '' @ join (js '', '') (missingFields ?b) =
      js ''Missing required fields: constraints, outputFormat''"
    by (simp add: js_def)
  with blank missing_fields_reported [of ?b True "generatorAnswering []" sampleParse]
  show ?thesis by simp
qed


lemma missingFields_Nil_exampleInputs:
  "missingFields b = [] \<Longrightarrow> exampleInputs b = Some ins \<Longrightarrow> ins \<noteq> []"
  by (auto simp: missingFields_def missingArray_def trim_def split: if_splits)

lemma messages_distinct:
  "invalidExampleInputs \<noteq> invalidExampleOutputs \<and>
   \<not> startsWith invalidExampleInputs (js ''Missing required fields: '') \<and>
   \<not> startsWith invalidExampleOutputs (js ''Missing required fields: '')"
  by (simp add: invalidExampleInputs_def invalidExampleOutputs_def startsWith_def js_def)

text \<open>
  Claim C2 as stated fails: for a request whose four text fields are filled in and whose
  example inputs are the empty array, the response is the missing-fields error naming
  \<open>exampleInputs\<close>, not the error about example inputs.
\<close>

theorem empty_example_inputs_reported_missing:
  "\<not> blankText (problemDescription (sampleRequest\<lparr>exampleInputs := Some []\<rparr>)) \<and>
   \<not> blankText (constraints (sampleRequest\<lparr>exampleInputs := Some []\<rparr>)) \<and>
   \<not> blankText (inputFormat (sampleRequest\<lparr>exampleInputs := Some []\<rparr>)) \<and>
   \<not> blankText (outputFormat (sampleRequest\<lparr>exampleInputs := Some []\<rparr>)) \<and>
   exampleInputs (sampleRequest\<lparr>exampleInputs := Some []\<rparr>) = Some [] \<and>
   POST True (generatorAnswering []) sampleParse (sampleRequest\<lparr>exampleInputs := Some []\<rparr>) =
     (errorResponse 400 (js ''Missing required fields: exampleInputs''), []) \<and>
   POST True (generatorAnswering []) sampleParse (sampleRequest\<lparr>exampleInputs := Some []\<rparr>) \<noteq>
     (errorResponse 400 invalidExampleInputs, [])"
proof -
  let ?b = "sampleRequest\<lparr>exampleInputs := Some []\<rparr>"
  have m: "missingFields ?b = [js ''exampleInputs'']"
    by (simp add: missingFields_def sampleRequest_def missingText_def missingArray_def
        trim_Nil_iff js_def isWhiteSpace_def)
  have msg: "js ''Missing required fields: '' @ js ''exampleInputs'' =
      js ''Missing required fields: exampleInputs''"
    by (simp add: js_def)
  have post: "POST True (generatorAnswering []) sampleParse ?b =
     (errorResponse 400 (js ''Missing required fields: exampleInputs''), [])"
    by (simp add: POST_missing m msg)
  have differ: "js ''Missing required fields: exampleInputs'' \<noteq> invalidExampleInputs"
    by (simp add: invalidExampleInputs_def js_inject)
  have fields: "\<not> blankText (problemDescription ?b) \<and> \<not> blankText (constraints ?b) \<and>
      \<not> blankText (inputFormat ?b) \<and> \<not> blankText (outputFormat ?b)"
    by (simp add: sampleRequest_def blankText_def trim_Nil_iff js_def isWhiteSpace_def)
  show ?thesis
    using fields differ by (simp add: post errorResponse_def)
qed

text \<open>
  Claim C2, amended. For a request in which the first check finds no field missing: when
  an example input is blank after trimming, the response is 400 with exactly the error
  about example inputs; when no example input is blank and the example outputs differ in
  number from the inputs or have a blank entry, the response is 400 with exactly the
  error about example outputs. The two errors differ from each other, and neither begins
  as the missing-fields error does.
\<close>

theorem example_checks:
  "missingFields b = [] \<Longrightarrow> exampleInputs b = Some ins \<Longrightarrow> exampleOutputs b = Some outs \<Longrightarrow>
   ((\<exists>ex\<in>set ins. trim ex = []) \<longrightarrow>
      POST apiKeySet generateContent JSONparse b = (errorResponse 400 invalidExampleInputs, [])) \<and>
   ((\<forall>ex\<in>set ins. trim ex \<noteq> []) \<and>
    (length outs \<noteq> length ins \<or> (\<exists>ex\<in>set outs. trim ex = [])) \<longrightarrow>
      POST apiKeySet generateContent JSONparse b = (errorResponse 400 invalidExampleOutputs, [])) \<and>
   invalidExampleInputs \<noteq> invalidExampleOutputs \<and>
   \<not> startsWith invalidExampleInputs (js ''Missing required fields: '') \<and>
   \<not> startsWith invalidExampleOutputs (js ''Missing required fields: '')"
proof -
  assume m: "missingFields b = []" and i: "exampleInputs b = Some ins"
    and out: "exampleOutputs b = Some outs"
  from m i have ne: "ins \<noteq> []"
    by (rule missingFields_Nil_exampleInputs)
  have first: "\<exists>ex\<in>set ins. trim ex = [] \<Longrightarrow>
      POST apiKeySet generateContent JSONparse b = (errorResponse 400 invalidExampleInputs, [])"
    by (simp add: POST_def Let_def m i list_ex_iff)
  have second: "(\<forall>ex\<in>set ins. trim ex \<noteq> []) \<and>
      (length outs \<noteq> length ins \<or> (\<exists>ex\<in>set outs. trim ex = [])) \<Longrightarrow>
      POST apiKeySet generateContent JSONparse b = (errorResponse 400 invalidExampleOutputs, [])"
    using ne by (auto simp: POST_def Let_def m i out list_ex_iff)
  from first second messages_distinct show ?thesis
    by blast
qed

text \<open>A request with a blank second example input, and one with fewer outputs than inputs.\<close>

theorem example_checks_witness:
  "POST True (generatorAnswering []) sampleParse
     (sampleRequest\<lparr>exampleInputs := Some [js ''1 2'', js ''  '']\<rparr>) =
     (errorResponse 400 invalidExampleInputs, []) \<and>
   POST True (generatorAnswering []) sampleParse
     (sampleRequest\<lparr>exampleOutputs := Some [js ''3'']\<rparr>) =
     (errorResponse 400 invalidExampleOutputs, [])"
proof -
  let ?b1 = "sampleRequest\<lparr>exampleInputs := Some [js ''1 2'', js ''  '']\<rparr>"
  let ?b2 = "sampleRequest\<lparr>exampleOutputs := Some [js ''3'']\<rparr>"
  have m1: "missingFields ?b1 = []"
    by (simp add: missingFields_def sampleRequest_def missingText_def missingArray_def
        trim_Nil_iff js_def isWhiteSpace_def)
  have i1: "exampleInputs ?b1 = Some [js ''1 2'', js ''  '']"
    and o1: "exampleOutputs ?b1 = Some [js ''3'', js ''7'']"
    by (simp_all add: sampleRequest_def)
  have blank: "\<exists>ex\<in>set [js ''1 2'', js ''  '']. trim ex = []"
    by (simp add: trim_Nil_iff js_def isWhiteSpace_def)
  have m2: "missingFields ?b2 = []"
    by (simp add: missingFields_def sampleRequest_def missingText_def missingArray_def
        trim_Nil_iff js_def isWhiteSpace_def)
  have i2: "exampleInputs ?b2 = Some [js ''1 2'', js ''3 4'']"
    and o2: "exampleOutputs ?b2 = Some [js ''3'']"
    by (simp_all add: sampleRequest_def)
  have mismatch: "(\<forall>ex\<in>set [js ''1 2'', js ''3 4'']. trim ex \<noteq> []) \<and>
      (length [js ''3''] \<noteq> length [js ''1 2'', js ''3 4''] \<or> (\<exists>ex\<in>set [js ''3'']. trim ex = []))"
    by (simp add: trim_Nil_iff js_def isWhiteSpace_def)
  from example_checks [OF m1 i1 o1, of True "generatorAnswering []" sampleParse] blank
  have "POST True (generatorAnswering []) sampleParse ?b1 = (errorResponse 400 invalidExampleInputs, [])"
    by blast
  moreover
  from example_checks [OF m2 i2 o2, of True "generatorAnswering []" sampleParse] mismatch
  have "POST True (generatorAnswering []) sampleParse ?b2 = (errorResponse 400 invalidExampleOutputs, [])"
    by blast
  ultimately show ?thesis by simp
qed

text \<open>
  Claim C8. The handler does constrain the explanations: a request that is accepted with
  one explanation is rejected as missing the field \<open>explanations\<close> when the array is
  empty, and when its only entry is blank.
\<close>

theorem explanations_required_by_handler:
  "passesValidation (sampleRequest\<lparr>explanations := Some [js ''sum'']\<rparr>)
     [js ''1 2'', js ''3 4''] [js ''3'', js ''7''] \<and>
   fst (POST True (generatorAnswering (assetsText (js ''def f(): pass''))) sampleParse
          (sampleRequest\<lparr>explanations := Some [js ''sum'']\<rparr>)) =
     \<lparr>status = 200, body = AssetsBody (assetsValue (js ''def f(): pass''))\<rparr> \<and>
   POST True (generatorAnswering (assetsText (js ''def f(): pass''))) sampleParse
     (sampleRequest\<lparr>explanations := Some []\<rparr>) =
     (errorResponse 400 (js ''Missing required fields: explanations''), []) \<and>
   POST True (generatorAnswering (assetsText (js ''def f(): pass''))) sampleParse
     (sampleRequest\<lparr>explanations := Some [js '' '']\<rparr>) =
     (errorResponse 400 (js ''Missing required fields: explanations''), [])"
proof -
  let ?g = "generatorAnswering (assetsText (js ''def f(): pass''))"
  have pass: "passesValidation (sampleRequest\<lparr>explanations := Some [js ''sum'']\<rparr>)
     [js ''1 2'', js ''3 4''] [js ''3'', js ''7'']"
    by (simp add: passesValidation_def missingFields_def sampleRequest_def missingText_def
        missingArray_def trim_Nil_iff js_def isWhiteSpace_def)
  have ok: "fst (POST True ?g sampleParse (sampleRequest\<lparr>explanations := Some [js ''sum'']\<rparr>)) =
     \<lparr>status = 200, body = AssetsBody (assetsValue (js ''def f(): pass''))\<rparr>"
    by (simp add: POST_passesValidation [OF pass] generatorAnswering_def processResponse_def
        parseAndValidate_def cleanResponse_assetsText sampleParse_answer validateAssets_sample)
  have m1: "missingFields (sampleRequest\<lparr>explanations := Some []\<rparr>) = [js ''explanations'']"
    by (simp add: missingFields_def sampleRequest_def missingText_def missingArray_def
        trim_Nil_iff js_def isWhiteSpace_def)
  have m2: "missingFields (sampleRequest\<lparr>explanations := Some [js '' '']\<rparr>) = [js ''explanations'']"
    by (simp add: missingFields_def sampleRequest_def missingText_def missingArray_def
        trim_Nil_iff js_def isWhiteSpace_def)
  have msg: "js ''Missing required fields: '' @ js ''explanations'' =
      js ''Missing required fields: explanations''"
    by (simp add: js_def)
  show ?thesis
    using pass ok by (simp add: POST_missing m1 m2 msg)
qed

text \<open>The status and the error of the response to the request with no explanation.\<close>

theorem explanations_required_by_handler_witness:
  "status (fst (POST True (generatorAnswering (assetsText (js ''def f(): pass''))) sampleParse
             (sampleRequest\<lparr>explanations := Some []\<rparr>))) = 400 \<and>
   body (fst (POST True (generatorAnswering (assetsText (js ''def f(): pass''))) sampleParse
             (sampleRequest\<lparr>explanations := Some []\<rparr>))) =
     ErrorBody (js ''Missing required fields: explanations'')"
  using explanations_required_by_handler by (simp add: errorResponse_def)

section \<open>Properties of the response handling\<close>

text \<open>
  Claim C3 as stated fails: a generator answer in which the four starter-code keys hold
  strings, the one for Python being empty, and whose first test case is filled in, makes
  the structure check throw, and the response is the 500 of a failed processing.
\<close>

theorem empty_starter_code_rejected:
  "bundleWithStrings (assetsValue []) \<and>
   sampleParse (cleanResponse (assetsText [])) = Inr (assetsValue []) \<and>
   validateAssets (assetsValue []) = Inl invalidStructure \<and>
   fst (processResponse sampleParse (assetsText [])) = errorResponse 500 processingFailed"
proof -
  have shape: "bundleWithStrings (assetsValue [])"
    by (simp add: bundleWithStrings_def firstTestCaseFilled_def testCasesOf_def readKey_def
        assetsValue_def holdsString_def holdsNonEmptyString_def js_inject)
  have "assetsText [] \<noteq> assetsText (js ''def f(): pass'')"
    by (simp add: assetsText_def js_def)
  then have parsed: "sampleParse (cleanResponse (assetsText [])) = Inr (assetsValue [])"
    by (simp add: cleanResponse_assetsText sampleParse_def)
  have thrown: "validateAssets (assetsValue []) = Inl invalidStructure"
    by (simp add: validateAssets_def assetsValue_def require_def js_inject)
  from shape parsed thrown show ?thesis
    by (simp add: processResponse_def parseAndValidate_def)
qed

text \<open>
  Claim C3, amended. When the starter code has the four keys each holding a non-empty
  string, and the test cases are a non-empty sequence whose first element has a non-empty
  input and expected output, the structure check throws nothing and the response is 200
  with the parsed value as its body.
\<close>

theorem non_empty_starter_code_accepted:
  "bundleWithNonEmptyStrings v \<Longrightarrow>
   validateAssets v = Inr (lengthWarning (length (testCasesOf v))) \<and>
   (\<forall>JSONparse responseText. JSONparse (cleanResponse responseText) = Inr v \<longrightarrow>
      fst (processResponse JSONparse responseText) = \<lparr>status = 200, body = AssetsBody v\<rparr>)"
proof -
  assume "bundleWithNonEmptyStrings v"
  then have valid: "structurallyValid v"
    by (rule structurallyValid_nonEmptyStrings)
  then have "validateAssets v = Inr (lengthWarning (length (testCasesOf v)))"
    by (rule validateAssets_structurallyValid)
  moreover have "fst (processResponse JSONparse responseText) = \<lparr>status = 200, body = AssetsBody v\<rparr>"
    if "JSONparse (cleanResponse responseText) = Inr v" for JSONparse responseText
    using valid that by (simp add: processResponse_accepts)
  ultimately show ?thesis by blast
qed

text \<open>The sample answer with a Python starter code is accepted.\<close>

theorem non_empty_starter_code_accepted_witness:
  "bundleWithNonEmptyStrings (assetsValue (js ''def f(): pass'')) \<and>
   sampleParse (cleanResponse (assetsText (js ''def f(): pass''))) =
     Inr (assetsValue (js ''def f(): pass'')) \<and>
   fst (processResponse sampleParse (assetsText (js ''def f(): pass''))) =
     \<lparr>status = 200, body = AssetsBody (assetsValue (js ''def f(): pass''))\<rparr>"
proof -
  have shape: "bundleWithNonEmptyStrings (assetsValue (js ''def f(): pass''))"
    by (simp add: bundleWithNonEmptyStrings_def firstTestCaseFilled_def testCasesOf_def
        readKey_def assetsValue_def holdsNonEmptyString_def js_inject)
  have parsed: "sampleParse (cleanResponse (assetsText (js ''def f(): pass''))) =
     Inr (assetsValue (js ''def f(): pass''))"
    by (simp add: cleanResponse_assetsText sampleParse_answer)
  from non_empty_starter_code_accepted [OF shape] parsed shape show ?thesis
    by blast
qed

text \<open>
  Claim C4. When the cleaned generator text does not parse, the response is 500 with
  exactly the error \<open>Failed to process AI response. Please check the format or try again.\<close>;
  what is logged is the raw text as it came and the parser's diagnostic. The response is
  that fixed message whatever the raw text is, so no part of the response comes from the
  generator's text.
\<close>

theorem unparseable_response:
  "JSONparse (cleanResponse responseText) = Inl diagnostic \<Longrightarrow>
   processResponse JSONparse responseText =
     (errorResponse 500 processingFailed,
      [ConsoleError [Text (js ''Failed to parse Gemini response:''), Text responseText],
       ConsoleError [Text (js ''Parse error:''), Thrown (SyntaxError diagnostic)]]) \<and>
   (\<forall>b ins outs generateContent.
      passesValidation b ins outs \<and> generateContent (promptOf b ins outs) = Inr responseText \<longrightarrow>
      POST True generateContent JSONparse b =
        (errorResponse 500 processingFailed,
         [ConsoleError [Text (js ''Failed to parse Gemini response:''), Text responseText],
          ConsoleError [Text (js ''Parse error:''), Thrown (SyntaxError diagnostic)]])) \<and>
   errorResponse 500 processingFailed =
     \<lparr>status = 500,
      body = ErrorBody (js ''Failed to process AI response. Please check the format or try again.'')\<rparr>"
proof -
  assume unparsed: "JSONparse (cleanResponse responseText) = Inl diagnostic"
  let ?out = "(errorResponse 500 processingFailed,
      [ConsoleError [Text (js ''Failed to parse Gemini response:''), Text responseText],
       ConsoleError [Text (js ''Parse error:''), Thrown (SyntaxError diagnostic)]])"
  have inner: "processResponse JSONparse responseText = ?out"
    by (simp add: processResponse_def parseAndValidate_def unparsed)
  have "POST True generateContent JSONparse b = ?out"
    if "passesValidation b ins outs" "generateContent (promptOf b ins outs) = Inr responseText"
    for b ins outs generateContent
    by (simp add: POST_passesValidation [OF that(1)] that(2) inner)
  moreover have "errorResponse 500 processingFailed =
     \<lparr>status = 500,
      body = ErrorBody (js ''Failed to process AI response. Please check the format or try again.'')\<rparr>"
    by (simp add: errorResponse_def processingFailed_def)
  ultimately show ?thesis
    using inner by blast
qed

text \<open>The handler on the sample request when the generator answers in prose.\<close>

theorem unparseable_response_witness:
  "sampleParse (cleanResponse (js ''Here are the assets you asked for.'')) =
     Inl (js ''Unexpected token'') \<and>
   POST True (generatorAnswering (js ''Here are the assets you asked for.'')) sampleParse
     sampleRequest =
     (errorResponse 500 processingFailed,
      [ConsoleError [Text (js ''Failed to parse Gemini response:''),
                     Text (js ''Here are the assets you asked for.'')],
       ConsoleError [Text (js ''Parse error:''), Thrown (SyntaxError (js ''Unexpected token''))]])"
proof -
  let ?text = "js ''Here are the assets you asked for.''"
  have "cleanResponse ?text = ?text"
    by (simp add: cleanResponse_def trim_def startsWith_def js_def isWhiteSpace_def)
  moreover have "?text \<noteq> assetsText py" for py
    by (simp add: assetsText_def js_def)
  ultimately have unparsed: "sampleParse (cleanResponse ?text) = Inl (js ''Unexpected token'')"
    by (simp add: sampleParse_def)
  have "generatorAnswering ?text
      (promptOf sampleRequest [js ''1 2'', js ''3 4''] [js ''3'', js ''7'']) = Inr ?text"
    by (simp add: generatorAnswering_def)
  with unparseable_response [of sampleParse ?text "js ''Unexpected token''"]
    sampleRequest_passes unparsed
  show ?thesis by blast
qed

text \<open>
  Claim C5. Cleaning a text wrapped in a fenced code block, tagged \<open>json\<close> or untagged,
  gives the text back, so parsing and checking the wrapped text gives what parsing and
  checking the text itself gives. In particular, for a text that parses to a structurally
  valid value, the response to the wrapped text has that value as its body.
\<close>

theorem fence_round_trip:
  "cleanResponse (fenceJson t) = t \<and>
   cleanResponse (fencePlain t) = t \<and>
   parseAndValidate JSONparse (cleanResponse (fenceJson t)) = parseAndValidate JSONparse t \<and>
   parseAndValidate JSONparse (cleanResponse (fencePlain t)) = parseAndValidate JSONparse t \<and>
   (\<forall>v. JSONparse t = Inr v \<and> structurallyValid v \<longrightarrow>
      fst (processResponse JSONparse (fenceJson t)) = \<lparr>status = 200, body = AssetsBody v\<rparr> \<and>
      fst (processResponse JSONparse (fencePlain t)) = \<lparr>status = 200, body = AssetsBody v\<rparr>)"
proof -
  have "fst (processResponse JSONparse (fenceJson t)) = \<lparr>status = 200, body = AssetsBody v\<rparr>"
    if "JSONparse t = Inr v" "structurallyValid v" for v
    using that by (simp add: processResponse_accepts cleanResponse_fenceJson)
  moreover
  have "fst (processResponse JSONparse (fencePlain t)) = \<lparr>status = 200, body = AssetsBody v\<rparr>"
    if "JSONparse t = Inr v" "structurallyValid v" for v
    using that by (simp add: processResponse_accepts cleanResponse_fencePlain)
  ultimately show ?thesis
    by (simp add: cleanResponse_fenceJson cleanResponse_fencePlain)
qed

text \<open>The sample answer inside either fence.\<close>

theorem fence_round_trip_witness:
  "sampleParse (assetsText (js ''def f(): pass'')) = Inr (assetsValue (js ''def f(): pass'')) \<and>
   structurallyValid (assetsValue (js ''def f(): pass'')) \<and>
   fst (processResponse sampleParse (fenceJson (assetsText (js ''def f(): pass'')))) =
     \<lparr>status = 200, body = AssetsBody (assetsValue (js ''def f(): pass''))\<rparr> \<and>
   fst (processResponse sampleParse (fencePlain (assetsText (js ''def f(): pass'')))) =
     \<lparr>status = 200, body = AssetsBody (assetsValue (js ''def f(): pass''))\<rparr>"
proof -
  have valid: "structurallyValid (assetsValue (js ''def f(): pass''))"
    by (simp add: structurallyValid_def testCasesOf_def readKey_def assetsValue_def js_inject)
  from fence_round_trip [of "assetsText (js ''def f(): pass'')" sampleParse]
    sampleParse_answer valid
  show ?thesis by blast
qed

text \<open>
  Claim C6. A structurally valid parsed value has at least one test case and is accepted
  whatever their number: the response is 200 with the value as its body. With 18, 20 or 22
  test cases nothing is logged; with 17, and with any number below 18 or above 22, the
  only effect is one warning that names the number.
\<close>

theorem test_case_count_is_advisory:
  "structurallyValid v \<Longrightarrow>
   1 \<le> length (testCasesOf v) \<and>
   validateAssets v = Inr (lengthWarning (length (testCasesOf v))) \<and>
   (\<forall>JSONparse responseText. JSONparse (cleanResponse responseText) = Inr v \<longrightarrow>
      processResponse JSONparse responseText =
        (\<lparr>status = 200, body = AssetsBody v\<rparr>, lengthWarning (length (testCasesOf v)))) \<and>
   (length (testCasesOf v) \<in> {18, 20, 22} \<longrightarrow> lengthWarning (length (testCasesOf v)) = []) \<and>
   (length (testCasesOf v) = 17 \<longrightarrow>
      lengthWarning (length (testCasesOf v)) =
        [ConsoleWarn [Text (js ''Gemini returned 17 test cases instead of 20.'')]]) \<and>
   (length (testCasesOf v) < 18 \<or> 22 < length (testCasesOf v) \<longrightarrow>
      lengthWarning (length (testCasesOf v)) =
        [ConsoleWarn [Text (js ''Gemini returned '' @ showNat (length (testCasesOf v)) @
                            js '' test cases instead of 20.'')]])"
proof -
  assume valid: "structurallyValid v"
  then have "1 \<le> length (testCasesOf v)"
    by (auto simp: structurallyValid_def split: list.splits)
  moreover have "lengthWarning 17 =
      [ConsoleWarn [Text (js ''Gemini returned 17 test cases instead of 20.'')]]"
    by (simp add: lengthWarning_def showNat_17 js_append [symmetric])
  moreover have "n \<in> {18, 20, 22} \<Longrightarrow> lengthWarning n = []" for n
    by (auto simp: lengthWarning_def)
  ultimately show ?thesis
    using valid
    by (auto simp: validateAssets_structurallyValid processResponse_accepts lengthWarning_def)
qed


text \<open>Values with 17 and with 20 test cases, and the sample answer with one.\<close>

theorem test_case_count_is_advisory_witness:
  "structurallyValid (assetsWithTestCases 17) \<and>
   validateAssets (assetsWithTestCases 17) =
     Inr [ConsoleWarn [Text (js ''Gemini returned 17 test cases instead of 20.'')]] \<and>
   structurallyValid (assetsWithTestCases 20) \<and>
   validateAssets (assetsWithTestCases 20) = Inr [] \<and>
   sampleParse (cleanResponse (assetsText (js ''def f(): pass''))) =
     Inr (assetsValue (js ''def f(): pass'')) \<and>
   fst (processResponse sampleParse (assetsText (js ''def f(): pass''))) =
     \<lparr>status = 200, body = AssetsBody (assetsValue (js ''def f(): pass''))\<rparr>"
proof -
  have tcs: "testCasesOf (assetsWithTestCases n) =
      replicate n (JObj [(js ''input'', JStr (js ''1 2'')), (js ''expectedOutput'', JStr (js ''3''))])"
    for n
    by (simp add: testCasesOf_def readKey_def assetsWithTestCases_def js_inject)
  have valid: "structurallyValid (assetsWithTestCases (Suc n))" for n
    by (simp add: structurallyValid_def tcs)
       (simp add: readKey_def assetsWithTestCases_def js_inject)
  have v17: "structurallyValid (assetsWithTestCases 17)"
    using valid [of 16] by simp
  have v20: "structurallyValid (assetsWithTestCases 20)"
    using valid [of 19] by simp
  have l17: "length (testCasesOf (assetsWithTestCases 17)) = 17"
    and l20: "length (testCasesOf (assetsWithTestCases 20)) \<in> {18, 20, 22}"
    by (simp_all add: tcs)
  have v1: "structurallyValid (assetsValue (js ''def f(): pass''))"
    by (simp add: structurallyValid_def testCasesOf_def readKey_def assetsValue_def js_inject)
  have parsed: "sampleParse (cleanResponse (assetsText (js ''def f(): pass''))) =
     Inr (assetsValue (js ''def f(): pass''))"
    by (simp add: cleanResponse_assetsText sampleParse_answer)
  note t17 = test_case_count_is_advisory [OF v17]
  note t20 = test_case_count_is_advisory [OF v20]
  note t1 = test_case_count_is_advisory [OF v1]
  have "lengthWarning (length (testCasesOf (assetsWithTestCases 17))) =
     [ConsoleWarn [Text (js ''Gemini returned 17 test cases instead of 20.'')]]"
    using t17 l17 by blast
  moreover have "validateAssets (assetsWithTestCases 17) =
     Inr (lengthWarning (length (testCasesOf (assetsWithTestCases 17))))"
    using t17 by blast
  ultimately have "validateAssets (assetsWithTestCases 17) =
     Inr [ConsoleWarn [Text (js ''Gemini returned 17 test cases instead of 20.'')]]"
    by (simp only:)
  moreover
  have "lengthWarning (length (testCasesOf (assetsWithTestCases 20))) = []"
    using t20 l20 by blast
  moreover have "validateAssets (assetsWithTestCases 20) =
     Inr (lengthWarning (length (testCasesOf (assetsWithTestCases 20))))"
    using t20 by blast
  ultimately have "validateAssets (assetsWithTestCases 17) =
     Inr [ConsoleWarn [Text (js ''Gemini returned 17 test cases instead of 20.'')]] \<and>
     validateAssets (assetsWithTestCases 20) = Inr []"
    by (simp only:)
  moreover
  have "processResponse sampleParse (assetsText (js ''def f(): pass'')) =
     (\<lparr>status = 200, body = AssetsBody (assetsValue (js ''def f(): pass''))\<rparr>,
      lengthWarning (length (testCasesOf (assetsValue (js ''def f(): pass'')))))"
    using t1 parsed by blast
  then have "fst (processResponse sampleParse (assetsText (js ''def f(): pass''))) =
     \<lparr>status = 200, body = AssetsBody (assetsValue (js ''def f(): pass''))\<rparr>"
    by simp
  ultimately show ?thesis
    using v17 v20 parsed by blast
qed

section \<open>Properties of the prompt\<close>

lemma showNat_digit: "n < 10 \<Longrightarrow> showNat n = [of_nat (48 + n)]"
  by (simp add: showNat.simps)

text \<open>
  Claim C9 as stated fails: in a request that passes the validation, the second
  explanation is a single space, blank after trimming, and the second example block of the
  prompt has an Explanation line all the same.
\<close>

theorem blank_explanation_rendered:
  "passesValidation (sampleRequest\<lparr>explanations := Some [js ''1 + 2 = 3'', js '' '']\<rparr>)
     [js ''1 2'', js ''3 4''] [js ''3'', js ''7''] \<and>
   elemAt [js ''1 + 2 = 3'', js '' ''] 1 = Some (js '' '') \<and>
   trim (js '' '') = [] \<and>
   explanationLine (explanations (sampleRequest\<lparr>explanations := Some [js ''1 + 2 = 3'', js '' '']\<rparr>)) 1 =
     js ''Explanation:\<newline> '' \<and>
   examplesString [js ''1 2'', js ''3 4''] [js ''3'', js ''7'']
     (explanations (sampleRequest\<lparr>explanations := Some [js ''1 + 2 = 3'', js '' '']\<rparr>)) =
     js ''\<newline>Example 1:\<newline>Input:\<newline>1 2\<newline>Output:\<newline>3\<newline>Explanation:\<newline>1 + 2 = 3\<newline>\<newline>---\<newline>\<newline>Example 2:\<newline>Input:\<newline>3 4\<newline>Output:\<newline>7\<newline>Explanation:\<newline> \<newline>''"
proof -
  let ?b = "sampleRequest\<lparr>explanations := Some [js ''1 + 2 = 3'', js '' '']\<rparr>"
  have pass: "passesValidation ?b [js ''1 2'', js ''3 4''] [js ''3'', js ''7'']"
    by (simp add: passesValidation_def missingFields_def sampleRequest_def missingText_def
        missingArray_def trim_Nil_iff js_def isWhiteSpace_def)
  have entry: "elemAt [js ''1 + 2 = 3'', js '' ''] 1 = Some (js '' '')"
    by (simp add: elemAt_def)
  have blank: "trim (js '' '') = []"
    by (simp add: trim_Nil_iff js_def isWhiteSpace_def)
  have expl: "explanations ?b = Some [js ''1 + 2 = 3'', js '' '']"
    by simp
  have line: "explanationLine (Some [js ''1 + 2 = 3'', js '' '']) 1 = js ''Explanation:\<newline> ''"
    by (simp add: explanationLine_def elemAt_def js_def)
  have blocks: "examplesString [js ''1 2'', js ''3 4''] [js ''3'', js ''7'']
      (Some [js ''1 + 2 = 3'', js '' '']) =
     js ''\<newline>Example 1:\<newline>Input:\<newline>1 2\<newline>Output:\<newline>3\<newline>Explanation:\<newline>1 + 2 = 3\<newline>\<newline>---\<newline>\<newline>Example 2:\<newline>Input:\<newline>3 4\<newline>Output:\<newline>7\<newline>Explanation:\<newline> \<newline>''"
    by (simp add: examplesString_def mapIndexed_def exampleBlock_def explanationLine_def
        elemAt_def interpolate_def showNat_digit js_def)
  from pass entry blank line blocks show ?thesis
    by (simp only: expl simp_thms)
qed

text \<open>
  Claim C9, amended. The example block of index \<open>index\<close> is the numbered heading, the
  input, the output and the explanation part. The explanation part is there if and only if
  the explanations are present and their entry at \<open>index\<close> exists and is not the empty
  string; it is then \<open>Explanation:\<close> and, on the next line, the entry as it is. No
  trimming is involved, so a whitespace-only entry does produce an Explanation line.
\<close>

theorem explanation_line_iff_non_empty:
  "index < length ins \<Longrightarrow>
   mapIndexed (exampleBlock outs expls) ins ! index =
     js ''\<newline>Example '' @ showNat (index + 1) @ js '':\<newline>'' @
     js ''Input:\<newline>'' @ ins ! index @ js ''\<newline>'' @
     js ''Output:\<newline>'' @ interpolate (elemAt outs index) @ js ''\<newline>'' @
     explanationLine expls index @ js ''\<newline>'' \<and>
   (explanationLine expls index \<noteq> [] \<longleftrightarrow>
      (\<exists>es. expls = Some es \<and> index < length es \<and> es ! index \<noteq> [])) \<and>
   (\<forall>es. expls = Some es \<and> index < length es \<and> es ! index \<noteq> [] \<longrightarrow>
      explanationLine expls index = js ''Explanation:\<newline>'' @ es ! index)"
  by (auto simp: nth_mapIndexed exampleBlock_def explanationLine_def elemAt_def
      split: option.splits)

text \<open>The second block for a one-space explanation, and the line for an empty one.\<close>

theorem explanation_line_iff_non_empty_witness:
  "mapIndexed (exampleBlock [js ''3'', js ''7''] (Some [js ''1 + 2 = 3'', js '' '']))
     [js ''1 2'', js ''3 4''] ! 1 =
     js ''\<newline>Example 2:\<newline>Input:\<newline>3 4\<newline>Output:\<newline>7\<newline>Explanation:\<newline> \<newline>'' \<and>
   explanationLine (Some [js ''1 + 2 = 3'', js '' '']) 1 = js ''Explanation:\<newline> '' \<and>
   explanationLine (Some [js ''1 + 2 = 3'', []]) 1 = []"
proof -
  have i: "(1::nat) < length [js ''1 2'', js ''3 4'']"
    by simp
  note t = explanation_line_iff_non_empty
    [OF i, of "[js ''3'', js ''7'']" "Some [js ''1 + 2 = 3'', js '' '']"]
  note u = explanation_line_iff_non_empty
    [OF i, of "[js ''3'', js ''7'']" "Some [js ''1 + 2 = 3'', []]"]
  have present: "Some [js ''1 + 2 = 3'', js '' ''] = Some [js ''1 + 2 = 3'', js '' ''] \<and>
      1 < length [js ''1 + 2 = 3'', js '' ''] \<and> [js ''1 + 2 = 3'', js '' ''] ! 1 \<noteq> []"
    by simp
  from t present
  have line: "explanationLine (Some [js ''1 + 2 = 3'', js '' '']) 1 =
      js ''Explanation:\<newline>'' @ [js ''1 + 2 = 3'', js '' ''] ! 1"
    by blast
  then have line': "explanationLine (Some [js ''1 + 2 = 3'', js '' '']) 1 = js ''Explanation:\<newline> ''"
    by (simp add: js_def)
  from t have "mapIndexed (exampleBlock [js ''3'', js ''7''] (Some [js ''1 + 2 = 3'', js '' '']))
     [js ''1 2'', js ''3 4''] ! 1 =
     js ''\<newline>Example '' @ showNat (1 + 1) @ js '':\<newline>'' @
     js ''Input:\<newline>'' @ [js ''1 2'', js ''3 4''] ! 1 @ js ''\<newline>'' @
     js ''Output:\<newline>'' @ interpolate (elemAt [js ''3'', js ''7''] 1) @ js ''\<newline>'' @
     explanationLine (Some [js ''1 + 2 = 3'', js '' '']) 1 @ js ''\<newline>''"
    by blast
  then have block: "mapIndexed (exampleBlock [js ''3'', js ''7''] (Some [js ''1 + 2 = 3'', js '' '']))
     [js ''1 2'', js ''3 4''] ! 1 =
     js ''\<newline>Example 2:\<newline>Input:\<newline>3 4\<newline>Output:\<newline>7\<newline>Explanation:\<newline> \<newline>''"
    unfolding line' by (simp add: elemAt_def interpolate_def showNat_digit js_def)
  have "\<not> (\<exists>es. Some [js ''1 + 2 = 3'', []] = Some es \<and> 1 < length es \<and> es ! 1 \<noteq> [])"
    by simp
  with u have "explanationLine (Some [js ''1 + 2 = 3'', []]) 1 = []"
    by blast
  with block line' show ?thesis by blast
qed

end
